theory Spec2Isabelle
  imports Complex_Main
begin

section \<open>Errors\<close>

text \<open>
  The only failures the two source files can raise themselves are JavaScript
  \<^verbatim>\<open>TypeError\<close>s (reading a property of \<^verbatim>\<open>undefined\<close> or \<^verbatim>\<open>null\<close>); a call across the
  bridge (\<^verbatim>\<open>pupPage.evaluate\<close>) may in addition reject.
\<close>

datatype error = TypeError | BridgeRejection

section \<open>Community.removeParticipants\<close>

subsection \<open>Data\<close>

text \<open>
  A \<^verbatim>\<open>Wid\<close> is the platform's identifier object; the code reads only its
  \<^verbatim>\<open>_serialized\<close> string. The argument \<^verbatim>\<open>participantIds\<close> is a single id string or an
  array of id strings (its JSDoc type).
\<close>

record wid =
  serialized :: string

datatype participantIds_arg = SingleId string | IdArray "string list"

text \<open>
  \<^verbatim>\<open>options.sleep\<close> is a number or an array of numbers (JSDoc: \<^verbatim>\<open>Array<number>|number\<close>);
  numbers are modelled as integers. What \<^verbatim>\<open>_getSleepTime\<close> hands to \<^verbatim>\<open>setTimeout\<close> is a
  number, the array itself, or \<^verbatim>\<open>NaN\<close>.
\<close>

datatype sleep_spec = SleepNumber int | SleepArray "int list"

datatype sleep_time = TimeNumber int | TimeArray "int list" | TimeNaN

record options =
  sleep_option :: "sleep_spec option"

record outcome =
  code :: int
  message :: string

text \<open>
  The value resolved by \<^verbatim>\<open>sendRemoveParticipantsRPC\<close>: its \<^verbatim>\<open>name\<close> and the three
  paths the code reads, with numeric codes:
  \<^item> \<open>nested_error\<close>: \<^verbatim>\<open>value.removeParticipant[0].<mixin>?.value.error\<close>, \<open>None\<close> when the
    mixin is absent;
  \<^item> \<open>client_error_code\<close>: \<^verbatim>\<open>value.errorRemoveParticipantsClientErrors.value.code\<close>;
  \<^item> \<open>server_error_code\<close>: \<^verbatim>\<open>value.errorServerErrors.value.code\<close>.
  On a number the unary \<^verbatim>\<open>+\<close> of the source is the identity.
\<close>

record rpc_result =
  name :: string
  nested_error :: "int option"
  client_error_code :: int
  server_error_code :: int

text \<open>
  The remote platform, as the loop sees it. \<open>QueryExist\<close>, the removal RPC and
  \<^verbatim>\<open>Math.random\<close> are indexed by the loop iteration that calls them, so that
  two occurrences of one identifier may get different answers.
  \<open>QueryExist E i w\<close> is the truth value of \<^verbatim>\<open>(await QueryExist(pWid))?.wid\<close>;
  \<open>sendRemoveParticipantsRPC E i w = None\<close> means that the call throws;
  \<open>communityParticipants\<close> holds the ids of \<^verbatim>\<open>community.groupMetadata?.participants._models\<close>
  after the refresh, \<open>None\<close> when \<^verbatim>\<open>groupMetadata\<close> is undefined.
  The calls that nothing in the source guards (\<^verbatim>\<open>createWid\<close>, \<^verbatim>\<open>Chat.find\<close>, the refresh,
  \<^verbatim>\<open>QueryExist\<close>) are taken to return.
\<close>

record platform =
  createWid :: "string \<Rightarrow> wid"
  iAmAdmin :: bool
  communityParticipants :: "wid list option"
  QueryExist :: "nat \<Rightarrow> wid \<Rightarrow> bool"
  sendRemoveParticipantsRPC :: "nat \<Rightarrow> wid \<Rightarrow> rpc_result option"
  Math_random :: "nat \<Rightarrow> real"

text \<open>The remote calls and timers of one run, in the order they are issued.\<close>

datatype event =
    QueryAndUpdateParticipants
  | QueryExistCall nat wid
  | RemoveParticipantsRPC nat wid
  | SetTimeout sleep_time

record batch_state =
  participantData :: "string \<rightharpoonup> outcome"
  sleep :: sleep_spec
  events :: "event list"

datatype removal_result = ErrorMessage string | BatchResult "string \<rightharpoonup> outcome"

record completed =
  returned :: removal_result
  trace :: "event list"

subsection \<open>The error-code table\<close>

definition errorCodes_default :: string where
  "errorCodes_default = ''An unknown error occupied while removing a participant''"

definition errorCodes_iAmNotAdmin :: string where
  "errorCodes_iAmNotAdmin =
     ''RemoveParticipantsError: You have no admin rights to remove participants from the community''"

definition errorCodes :: "(int \<times> string) list" where
  "errorCodes =
     [(200, ''The participant was removed successfully from the community and its subgroups''),
      (404, ''The phone number is not registered on WhatsApp''),
      (405, ''The participant is not allowed to be removed from the community''),
      (406, ''The participant can't be removed from the community because they created this community''),
      (409, ''The participant is not a community member''),
      (500, ''A server error occupied while removing the participant from community subgroups'')]"

text \<open>\<^verbatim>\<open>errorCodes[c] || errorCodes.default\<close>; every message of the table is non-empty.\<close>

definition errorCodes_or_default :: "int \<Rightarrow> string" where
  "errorCodes_or_default c =
     (case map_of errorCodes c of Some m \<Rightarrow> m | None \<Rightarrow> errorCodes_default)"

subsection \<open>The pacing scheduler\<close>

text \<open>
  \<^verbatim>\<open>_getSleepTime\<close> returns a value and may write to the array \<^verbatim>\<open>sleep\<close>, so the model
  returns the value and the array afterwards. \<open>r\<close> is the value of \<^verbatim>\<open>Math.random()\<close>.
  In \<^verbatim>\<open>(sleep[0] = sleep[1]) && (sleep[1] += 100)\<close> the second write happens only when the
  assigned value is truthy, that is, not 0. On an empty array the arithmetic is on
  \<^verbatim>\<open>undefined\<close> and gives \<^verbatim>\<open>NaN\<close>.
\<close>

definition getSleepTime :: "real \<Rightarrow> sleep_spec \<Rightarrow> sleep_time \<times> sleep_spec" where
  "getSleepTime r sl =
     (case sl of
        SleepNumber n \<Rightarrow> (TimeNumber n, sl)
      | SleepArray xs \<Rightarrow>
          if length xs = 2 \<and> xs ! 0 = xs ! 1 then (TimeArray xs, sl)
          else if length xs = 1 then (TimeNumber (xs ! 0), sl)
          else if length xs = 0 then (TimeNaN, sl)
          else
            let ys = (if xs ! 1 - xs ! 0 < 100 then xs[0 := xs ! 1] else xs);
                zs = (if xs ! 1 - xs ! 0 < 100 \<and> ys ! 0 \<noteq> 0 then ys[1 := ys ! 1 + 100] else ys)
            in (TimeNumber (\<lfloor>r * of_int (zs ! 1 - zs ! 0 + 1)\<rfloor> + zs ! 0), SleepArray zs))"

text \<open>Truthiness of \<^verbatim>\<open>sleep\<close>: a number is truthy unless 0, an array always.\<close>

fun sleep_truthy :: "sleep_spec \<Rightarrow> bool" where
  "sleep_truthy (SleepNumber n) = (n \<noteq> 0)"
| "sleep_truthy (SleepArray xs) = True"

text \<open>
  \<^verbatim>\<open>participantIds.indexOf(pWid)\<close> searches the array of id strings for \<^verbatim>\<open>pWid\<close> with
  \<^verbatim>\<open>===\<close>. The elements are the strings that came across the bridge, \<^verbatim>\<open>pWid\<close> is the
  object that \<^verbatim>\<open>createWid\<close> made of one of them (the loop reads its \<^verbatim>\<open>_serialized\<close>), and a
  string is never strictly equal to an object.
\<close>

definition strict_equals_string_wid :: "string \<Rightarrow> wid \<Rightarrow> bool" where
  "strict_equals_string_wid s w = False"

fun indexOf_from :: "string list \<Rightarrow> wid \<Rightarrow> int \<Rightarrow> int" where
  "indexOf_from [] w k = - 1"
| "indexOf_from (x # xs) w k =
     (if strict_equals_string_wid x w then k else indexOf_from xs w (k + 1))"

definition indexOf :: "string list \<Rightarrow> wid \<Rightarrow> int" where
  "indexOf xs w = indexOf_from xs w 0"

definition log_event :: "event \<Rightarrow> batch_state \<Rightarrow> batch_state" where
  "log_event e st = st\<lparr>events := events st @ [e]\<rparr>"

definition set_outcome :: "string \<Rightarrow> int \<Rightarrow> string \<Rightarrow> batch_state \<Rightarrow> batch_state" where
  "set_outcome pId c m st =
     st\<lparr>participantData := (participantData st)(pId \<mapsto> \<lparr>code = c, message = m\<rparr>)\<rparr>"

text \<open>The \<^verbatim>\<open>finally\<close> block of the loop body.\<close>

definition pace :: "platform \<Rightarrow> string list \<Rightarrow> nat \<Rightarrow> wid \<Rightarrow> batch_state \<Rightarrow> batch_state" where
  "pace E ids i pWid st =
     (if sleep_truthy (sleep st) \<and> length ids > 1
         \<and> indexOf ids pWid \<noteq> int (length ids) - 1
      then (case getSleepTime (Math_random E i) (sleep st) of
              (t, sl) \<Rightarrow> log_event (SetTimeout t) (st\<lparr>sleep := sl\<rparr>))
      else st)"

subsection \<open>The outcome classifier and the loop\<close>

definition record_rpcResult :: "string \<Rightarrow> rpc_result \<Rightarrow> batch_state \<Rightarrow> batch_state" where
  "record_rpcResult pId rpcResult st =
     (if name rpcResult = ''RemoveParticipantsResponseSuccess'' then
        let errorCode =
              (case nested_error rpcResult of
                 None \<Rightarrow> 200
               | Some e \<Rightarrow> if e = 0 then 200 else e)
        in set_outcome pId errorCode (errorCodes_or_default errorCode) st
      else if name rpcResult = ''RemoveParticipantsResponseClientError'' then
        set_outcome pId (client_error_code rpcResult)
          (errorCodes_or_default (client_error_code rpcResult)) st
      else if name rpcResult = ''RemoveParticipantsResponseServerError'' then
        set_outcome pId (server_error_code rpcResult)
          (errorCodes_or_default (server_error_code rpcResult)) st
      else st)"

text \<open>
  One iteration of \<^verbatim>\<open>for (const pWid of participantWids)\<close>. In the \<^verbatim>\<open>catch\<close> case the
  outcome 400 is written before the \<^verbatim>\<open>finally\<close> block runs; otherwise the \<^verbatim>\<open>finally\<close>
  block runs before the response is classified. With \<^verbatim>\<open>communityParticipants\<close> undefined
  the call of \<^verbatim>\<open>.every\<close> is a \<^verbatim>\<open>TypeError\<close> that nothing catches.
\<close>

definition process_participant ::
  "platform \<Rightarrow> string list \<Rightarrow> nat \<Rightarrow> wid \<Rightarrow> batch_state \<Rightarrow> error + batch_state" where
  "process_participant E ids i pWid st =
     (let pId = serialized pWid;
          st1 = log_event (QueryExistCall i pWid) st
      in if \<not> QueryExist E i pWid then
           Inr (set_outcome pId 404 (errorCodes_or_default 404) st1)
         else
           (case communityParticipants E of
              None \<Rightarrow> Inl TypeError
            | Some ps \<Rightarrow>
                if list_all (\<lambda>p. serialized p \<noteq> pId) ps then
                  Inr (set_outcome pId 409 (errorCodes_or_default 409) st1)
                else
                  let st2 = log_event (RemoveParticipantsRPC i pWid) st1
                  in (case sendRemoveParticipantsRPC E i pWid of
                        None \<Rightarrow>
                          Inr (pace E ids i pWid (set_outcome pId 400 errorCodes_default st2))
                      | Some rpcResult \<Rightarrow>
                          Inr (record_rpcResult pId rpcResult (pace E ids i pWid st2)))))"

fun for_participantWids ::
  "platform \<Rightarrow> string list \<Rightarrow> nat \<Rightarrow> wid list \<Rightarrow> batch_state \<Rightarrow> error + batch_state" where
  "for_participantWids E ids i [] st = Inr st"
| "for_participantWids E ids i (pWid # rest) st =
     (case process_participant E ids i pWid st of
        Inl e \<Rightarrow> Inl e
      | Inr st' \<Rightarrow> for_participantWids E ids (Suc i) rest st')"

definition normalize_ids :: "participantIds_arg \<Rightarrow> string list" where
  "normalize_ids a = (case a of SingleId p \<Rightarrow> [p] | IdArray ps \<Rightarrow> ps)"

definition initial_state :: "options \<Rightarrow> batch_state" where
  "initial_state opts =
     \<lparr>participantData = Map.empty,
      sleep = (case sleep_option opts of None \<Rightarrow> SleepArray [250, 500] | Some s \<Rightarrow> s),
      events = [QueryAndUpdateParticipants]\<rparr>"

definition removeParticipants ::
  "platform \<Rightarrow> participantIds_arg \<Rightarrow> options \<Rightarrow> error + completed" where
  "removeParticipants E participantIds opts =
     (let ids = normalize_ids participantIds;
          participantWids = map (createWid E) ids
      in if \<not> iAmAdmin E then
           Inr \<lparr>returned = ErrorMessage errorCodes_iAmNotAdmin, trace = []\<rparr>
         else
           (case for_participantWids E ids 0 participantWids (initial_state opts) of
              Inl e \<Rightarrow> Inl e
            | Inr st \<Rightarrow> Inr \<lparr>returned = BatchResult (participantData st), trace = events st\<rparr>))"

section \<open>Snapshots and entity hydration\<close>

subsection \<open>JavaScript values\<close>

text \<open>
  A snapshot is a loosely typed JSON value. Numbers are modelled as integers. A property
  read \<^verbatim>\<open>v.k\<close> is a \<^verbatim>\<open>TypeError\<close> when \<open>v\<close> is \<^verbatim>\<open>undefined\<close> or \<^verbatim>\<open>null\<close>; on any other
  value it is the object's own property \<open>k\<close>, or \<^verbatim>\<open>undefined\<close>. (The property names the
  source reads are no built-in properties of strings, numbers, booleans or arrays.)
\<close>

datatype jsval =
    JUndefined
  | JNull
  | JBool bool
  | JNum int
  | JStr string
  | JArr "jsval list"
  | JObj "(string \<times> jsval) list"

fun truthy :: "jsval \<Rightarrow> bool" where
  "truthy JUndefined = False"
| "truthy JNull = False"
| "truthy (JBool b) = b"
| "truthy (JNum n) = (n \<noteq> 0)"
| "truthy (JStr s) = (s \<noteq> [])"
| "truthy (JArr xs) = True"
| "truthy (JObj ps) = True"

fun nullish :: "jsval \<Rightarrow> bool" where
  "nullish JUndefined = True"
| "nullish JNull = True"
| "nullish v = False"

fun js_prop :: "jsval \<Rightarrow> string \<Rightarrow> jsval" where
  "js_prop (JObj ps) k = (case map_of ps k of Some v \<Rightarrow> v | None \<Rightarrow> JUndefined)"
| "js_prop v k = JUndefined"

definition get_prop :: "jsval \<Rightarrow> string \<Rightarrow> error + jsval" where
  "get_prop v k = (if nullish v then Inl TypeError else Inr (js_prop v k))"

text \<open>\<^verbatim>\<open>typeof v === 'object'\<close> holds for objects, arrays and \<^verbatim>\<open>null\<close>.\<close>

fun typeof_object :: "jsval \<Rightarrow> bool" where
  "typeof_object JNull = True"
| "typeof_object (JArr xs) = True"
| "typeof_object (JObj ps) = True"
| "typeof_object v = False"

text \<open>\<^verbatim>\<open>a || b\<close>\<close>

definition js_or :: "jsval \<Rightarrow> jsval \<Rightarrow> jsval" where
  "js_or a b = (if truthy a then a else b)"

text \<open>\<^verbatim>\<open>typeof (x) === 'object' ? x._serialized : x\<close>\<close>

definition serialized_if_object :: "jsval \<Rightarrow> error + jsval" where
  "serialized_if_object x = (if typeof_object x then get_prop x ''_serialized'' else Inr x)"

subsection \<open>Message\<close>

text \<open>
  The fields \<^verbatim>\<open>id\<close>, \<^verbatim>\<open>type\<close>, \<^verbatim>\<open>from\<close> and \<^verbatim>\<open>to\<close> of the class are \<open>msg_id\<close>, \<open>msg_type\<close>,
  \<open>msg_from\<close> and \<open>msg_to\<close> here. A field never assigned is \<^verbatim>\<open>undefined\<close>. The client is
  only passed on; it is an opaque handle.
\<close>

record message =
  client :: nat
  msg_id :: jsval
  hasMedia :: jsval
  body :: jsval
  msg_type :: jsval
  timestamp :: jsval
  msg_from :: jsval
  msg_to :: jsval
  author :: jsval
  isForwarded :: jsval
  broadcast :: jsval
  fromMe :: jsval
  hasQuotedMsg :: jsval
  mentions :: jsval

text \<open>
  \<^verbatim>\<open>Message._patch(data)\<close>. The parent class \<^verbatim>\<open>Base\<close> is not among the sources, so
  \<^verbatim>\<open>super._patch\<close> is the parameter \<open>super_patch\<close>: it gets the entity as the assignments
  have left it and the same snapshot, and its result is returned. The entity is mutated
  in place, so the model returns it also when a \<^verbatim>\<open>TypeError\<close> ends the call.
\<close>

definition Message_patch ::
  "('a message_scheme \<Rightarrow> jsval \<Rightarrow> (error + 'r) \<times> 'a message_scheme) \<Rightarrow>
   'a message_scheme \<Rightarrow> jsval \<Rightarrow> (error + 'r) \<times> 'a message_scheme" where
  "Message_patch super_patch this data =
     (if nullish data then (Inl TypeError, this)
      else
        let t1 = this\<lparr>msg_id := js_prop data ''id''\<rparr>;
            t2 = t1\<lparr>hasMedia := JBool (truthy (js_prop data ''clientUrl''))\<rparr>;
            t3 = t2\<lparr>body := (if truthy (hasMedia t2) then js_or (js_prop data ''caption'') (JStr [])
                             else js_or (js_prop data ''body'') (JStr []))\<rparr>;
            t4 = t3\<lparr>msg_type := js_prop data ''type''\<rparr>;
            t5 = t4\<lparr>timestamp := js_prop data ''t''\<rparr>
        in (case serialized_if_object (js_prop data ''from'') of
              Inl e \<Rightarrow> (Inl e, t5)
            | Inr v6 \<Rightarrow>
                let t6 = t5\<lparr>msg_from := v6\<rparr>
                in (case serialized_if_object (js_prop data ''to'') of
                      Inl e \<Rightarrow> (Inl e, t6)
                    | Inr v7 \<Rightarrow>
                        let t7 = t6\<lparr>msg_to := v7\<rparr>
                        in (case serialized_if_object (js_prop data ''author'') of
                              Inl e \<Rightarrow> (Inl e, t7)
                            | Inr v8 \<Rightarrow>
                                let t8 = t7\<lparr>author := v8\<rparr>;
                                    t9 = t8\<lparr>isForwarded := js_prop data ''isForwarded''\<rparr>;
                                    t10 = t9\<lparr>broadcast := js_prop data ''broadcast''\<rparr>
                                in (case get_prop (js_prop data ''id'') ''fromMe'' of
                                      Inl e \<Rightarrow> (Inl e, t10)
                                    | Inr v11 \<Rightarrow>
                                        let t11 = t10\<lparr>fromMe := v11\<rparr>;
                                            t12 = t11\<lparr>hasQuotedMsg := JBool (truthy (js_prop data ''quotedMsg''))\<rparr>;
                                            t13 = t12\<lparr>mentions := JArr []\<rparr>;
                                            t14 = (if truthy (js_prop data ''mentionedJidList'')
                                                   then t13\<lparr>mentions := js_prop data ''mentionedJidList''\<rparr>
                                                   else t13)
                                        in super_patch t14 data)))))"

text \<open>
  \<^verbatim>\<open>new Message(client, data)\<close>: a new object, on which only \<^verbatim>\<open>client\<close> is set, patched when
  \<^verbatim>\<open>data\<close> is truthy; the value \<^verbatim>\<open>_patch\<close> returns is dropped.
\<close>

definition empty_message :: "nat \<Rightarrow> message" where
  "empty_message c =
     \<lparr>client = c, msg_id = JUndefined, hasMedia = JUndefined, body = JUndefined,
      msg_type = JUndefined, timestamp = JUndefined, msg_from = JUndefined,
      msg_to = JUndefined, author = JUndefined, isForwarded = JUndefined,
      broadcast = JUndefined, fromMe = JUndefined, hasQuotedMsg = JUndefined,
      mentions = JUndefined\<rparr>"

definition Message_new ::
  "(message \<Rightarrow> jsval \<Rightarrow> (error + 'r) \<times> message) \<Rightarrow> nat \<Rightarrow> jsval \<Rightarrow> error + message" where
  "Message_new super_patch c data =
     (if truthy data then
        (case Message_patch super_patch (empty_message c) data of
           (Inl e, this) \<Rightarrow> Inl e
         | (Inr r, this) \<Rightarrow> Inr this)
      else Inr (empty_message c))"

text \<open>
  \<^verbatim>\<open>getQuotedMessage()\<close>. The bridge call \<^verbatim>\<open>pupPage.evaluate(..., this.id._serialized)\<close>
  rejects or resolves to a value. The entities that exist before the call are the list
  \<open>h\<close>, an entity's reference being its position; \<^verbatim>\<open>new\<close> appends. The run gives the
  returned reference (\<open>None\<close> for \<^verbatim>\<open>undefined\<close>), the entities afterwards and the
  arguments of the bridge calls made.
\<close>

datatype bridge_reply = Rejects | Resolves jsval

record quoted_run =
  outcome_ref :: "error + nat option"
  entities :: "message list"
  bridge_calls :: "jsval list"

definition getQuotedMessage ::
  "(message \<Rightarrow> jsval \<Rightarrow> (error + 'r) \<times> message) \<Rightarrow> (jsval \<Rightarrow> bridge_reply) \<Rightarrow>
   message list \<Rightarrow> message \<Rightarrow> quoted_run" where
  "getQuotedMessage super_patch evaluate h this =
     (if \<not> truthy (hasQuotedMsg this) then
        \<lparr>outcome_ref = Inr None, entities = h, bridge_calls = []\<rparr>
      else
        (case get_prop (msg_id this) ''_serialized'' of
           Inl e \<Rightarrow> \<lparr>outcome_ref = Inl e, entities = h, bridge_calls = []\<rparr>
         | Inr msgId \<Rightarrow>
             (case evaluate msgId of
                Rejects \<Rightarrow>
                  \<lparr>outcome_ref = Inl BridgeRejection, entities = h, bridge_calls = [msgId]\<rparr>
              | Resolves quotedMsg \<Rightarrow>
                  (case Message_new super_patch (client this) quotedMsg of
                     Inl e \<Rightarrow> \<lparr>outcome_ref = Inl e, entities = h, bridge_calls = [msgId]\<rparr>
                   | Inr m \<Rightarrow>
                       \<lparr>outcome_ref = Inr (Some (length h)), entities = h @ [m],
                        bridge_calls = [msgId]\<rparr>))))"

subsection \<open>Community\<close>

text \<open>
  \<^verbatim>\<open>Community._patch(data)\<close> sets its two fields and then calls \<^verbatim>\<open>super._patch(data)\<close>.
  The parent class \<^verbatim>\<open>GroupChat\<close> is not among the sources; its patch is the parameter
  \<open>super_patch\<close>, and the fields it owns are the extension of the record.
\<close>

record community =
  groupMetadata :: jsval
  isCommunity :: jsval

definition Community_patch ::
  "('a community_scheme \<Rightarrow> jsval \<Rightarrow> (error + 'r) \<times> 'a community_scheme) \<Rightarrow>
   'a community_scheme \<Rightarrow> jsval \<Rightarrow> (error + 'r) \<times> 'a community_scheme" where
  "Community_patch super_patch this data =
     (if nullish data then (Inl TypeError, this)
      else
        let t1 = this\<lparr>groupMetadata := js_prop data ''groupMetadata''\<rparr>;
            t2 = t1\<lparr>isCommunity := JBool True\<rparr>
        in super_patch t2 data)"

section \<open>Derived notions and example inputs\<close>

text \<open>
  The two conditions under which an iteration reaches the removal RPC: the existence
  query succeeds and the membership snapshot has an entry with the target's serialized id.
\<close>

definition reaches_rpc :: "platform \<Rightarrow> nat \<Rightarrow> wid \<Rightarrow> bool" where
  "reaches_rpc E i w =
     (QueryExist E i w \<and>
      (case communityParticipants E of
         None \<Rightarrow> False
       | Some ps \<Rightarrow> \<not> list_all (\<lambda>p. serialized p \<noteq> serialized w) ps))"

text \<open>
  The entry that iteration \<open>i\<close> writes for its target, read off a run of the loop body on
  an empty result object: \<open>None\<close> when the iteration writes none or throws.
\<close>

definition occurrence_outcome :: "platform \<Rightarrow> string list \<Rightarrow> nat \<Rightarrow> wid \<Rightarrow> outcome option" where
  "occurrence_outcome E ids i w =
     (case process_participant E ids i w
             \<lparr>participantData = Map.empty, sleep = SleepNumber 0, events = []\<rparr> of
        Inl e \<Rightarrow> None
      | Inr st \<Rightarrow> participantData st (serialized w))"

text \<open>What a completed call returned for one key, and the calls it made.\<close>

definition result_entry :: "error + completed \<Rightarrow> string \<Rightarrow> outcome option" where
  "result_entry r k =
     (case r of
        Inl e \<Rightarrow> None
      | Inr c \<Rightarrow> (case returned c of ErrorMessage m \<Rightarrow> None | BatchResult pd \<Rightarrow> pd k))"

definition result_trace :: "error + completed \<Rightarrow> event list" where
  "result_trace r = (case r of Inl e \<Rightarrow> [] | Inr c \<Rightarrow> trace c)"

fun is_SetTimeout :: "event \<Rightarrow> bool" where
  "is_SetTimeout (SetTimeout t) = True"
| "is_SetTimeout e = False"

text \<open>Counting the timers set and the removal RPCs issued in a trace.\<close>

fun is_RemoveParticipantsRPC :: "event \<Rightarrow> bool" where
  "is_RemoveParticipantsRPC (RemoveParticipantsRPC i w) = True"
| "is_RemoveParticipantsRPC e = False"

definition timers_set :: "event list \<Rightarrow> nat" where
  "timers_set es = length (filter is_SetTimeout es)"

definition removal_attempts :: "event list \<Rightarrow> nat" where
  "removal_attempts es = length (filter is_RemoveParticipantsRPC es)"

text \<open>
  Position \<open>i\<close> of the batch is the last one with its serialized identifier.
\<close>

definition last_occurrence :: "platform \<Rightarrow> string list \<Rightarrow> nat \<Rightarrow> bool" where
  "last_occurrence E ids i =
     list_all (\<lambda>p. serialized (createWid E p) \<noteq> serialized (createWid E (ids ! i)))
       (drop (Suc i) ids)"

text \<open>Platforms and responses used in the examples.\<close>

definition plain_wid :: "string \<Rightarrow> wid" where
  "plain_wid s = \<lparr>serialized = s\<rparr>"

definition response_success :: rpc_result where
  "response_success =
     \<lparr>name = ''RemoveParticipantsResponseSuccess'', nested_error = None,
      client_error_code = 0, server_error_code = 0\<rparr>"

definition response_unrecognised :: rpc_result where
  "response_unrecognised =
     \<lparr>name = ''RemoveParticipantsResponseUnknown'', nested_error = None,
      client_error_code = 0, server_error_code = 0\<rparr>"

definition members_a_b :: "wid list" where
  "members_a_b = [plain_wid ''a@c.us'', plain_wid ''b@c.us'']"

definition platform_removing :: platform where
  "platform_removing =
     \<lparr>createWid = plain_wid, iAmAdmin = True, communityParticipants = Some members_a_b,
      QueryExist = (\<lambda>i w. True),
      sendRemoveParticipantsRPC = (\<lambda>i w. Some response_success),
      Math_random = (\<lambda>i. 0)\<rparr>"

definition platform_unrecognised :: platform where
  "platform_unrecognised =
     platform_removing\<lparr>sendRemoveParticipantsRPC := (\<lambda>i w. Some response_unrecognised)\<rparr>"

definition platform_not_admin :: platform where
  "platform_not_admin = platform_removing\<lparr>iAmAdmin := False\<rparr>"


definition platform_then_unrecognised :: platform where
  "platform_then_unrecognised =
     platform_removing\<lparr>sendRemoveParticipantsRPC :=
       (\<lambda>i w. if i = 0 then Some response_success else Some response_unrecognised)\<rparr>"


definition default_options :: options where
  "default_options = \<lparr>sleep_option = None\<rparr>"

subsection \<open>Entities and snapshots of the examples\<close>

text \<open>
  Parent patches for the examples: one that sets nothing and returns the snapshot, and
  one that returns the \<^verbatim>\<open>isCommunity\<close> flag it finds on the entity when it is called.
\<close>

definition unchanged_parent :: "'a \<Rightarrow> jsval \<Rightarrow> (error + jsval) \<times> 'a" where
  "unchanged_parent this data = (Inr data, this)"

definition flag_reading_parent :: "community \<Rightarrow> jsval \<Rightarrow> (error + jsval) \<times> community" where
  "flag_reading_parent this data = (Inr (isCommunity this), this)"

text \<open>
  The order of the specification, for comparison with \<open>Community_patch\<close>: the parent's
  patch runs first, on the entity as it was, and the two community fields are assigned
  afterwards.
\<close>

definition Community_patch_parent_first ::
  "('a community_scheme \<Rightarrow> jsval \<Rightarrow> (error + 'r) \<times> 'a community_scheme) \<Rightarrow>
   'a community_scheme \<Rightarrow> jsval \<Rightarrow> (error + 'r) \<times> 'a community_scheme" where
  "Community_patch_parent_first super_patch this data =
     (case super_patch this data of
        (Inl e, t) \<Rightarrow> (Inl e, t)
      | (Inr r, t) \<Rightarrow>
          if nullish data then (Inl TypeError, t)
          else (Inr r, t\<lparr>groupMetadata := js_prop data ''groupMetadata'', isCommunity := JBool True\<rparr>))"

text \<open>
  An entity on which none of the fields that \<^verbatim>\<open>Message._patch\<close> assigns has been set.
\<close>

definition unset_fields :: "'a message_scheme \<Rightarrow> 'a message_scheme" where
  "unset_fields m =
     m\<lparr>msg_id := JUndefined, hasMedia := JUndefined, body := JUndefined,
       msg_type := JUndefined, timestamp := JUndefined, msg_from := JUndefined,
       msg_to := JUndefined, author := JUndefined, isForwarded := JUndefined,
       broadcast := JUndefined, fromMe := JUndefined, hasQuotedMsg := JUndefined,
       mentions := JUndefined\<rparr>"

text \<open>
  Entities, snapshots and a bridge for the examples. The bridge knows the message
  \<open>m1\<close> and resolves its quoted message.
\<close>

definition unpatched_community :: community where
  "unpatched_community = \<lparr>groupMetadata = JUndefined, isCommunity = JUndefined\<rparr>"

definition chat_message :: message where
  "chat_message =
     (empty_message 1)\<lparr>msg_id := JObj [(''fromMe'', JBool False), (''_serialized'', JStr ''m1'')],
       hasMedia := JBool False, body := JStr ''hello'', msg_type := JStr ''chat'',
       timestamp := JNum 1700000000, msg_from := JStr ''a@c.us'', msg_to := JStr ''b@c.us'',
       fromMe := JBool False, hasQuotedMsg := JBool True, mentions := JArr []\<rparr>"

definition snapshot_without_type :: jsval where
  "snapshot_without_type =
     JObj [(''id'', JObj [(''fromMe'', JBool False), (''_serialized'', JStr ''m1'')]),
           (''body'', JStr ''bye'')]"

definition snapshot_without_id :: jsval where
  "snapshot_without_id = JObj [(''type'', JStr ''image''), (''body'', JStr ''hi'')]"

definition snapshot_quoted :: jsval where
  "snapshot_quoted =
     JObj [(''id'', JObj [(''fromMe'', JBool True), (''_serialized'', JStr ''m0'')]),
           (''body'', JStr ''original''), (''type'', JStr ''chat''),
           (''from'', JObj [(''_serialized'', JStr ''b@c.us'')]), (''to'', JStr ''a@c.us'')]"

definition bridge_quoted :: "jsval \<Rightarrow> bridge_reply" where
  "bridge_quoted msgId = (if msgId = JStr ''m1'' then Resolves snapshot_quoted else Rejects)"

definition plain_message :: message where
  "plain_message = chat_message\<lparr>hasQuotedMsg := JBool False\<rparr>"

section \<open>Properties of removeParticipants\<close>

subsection \<open>Authorization\<close>

text \<open>
  Claim C8. When the caller is not an admin of the community, the call returns the
  error message \<^verbatim>\<open>errorCodes.iAmNotAdmin\<close>, which is not a result map, and has made no call
  at all: no refresh of the membership snapshot, no existence query, no removal RPC, no timer.
\<close>

theorem removeParticipants_not_admin:
  assumes "\<not> iAmAdmin E"
  shows "removeParticipants E participantIds opts =
           Inr \<lparr>returned = ErrorMessage errorCodes_iAmNotAdmin, trace = []\<rparr>"
  using assms by (simp add: removeParticipants_def Let_def)

theorem removeParticipants_not_admin_witness:
  "\<not> iAmAdmin platform_not_admin \<and>
   removeParticipants platform_not_admin (IdArray [''a@c.us'', ''b@c.us'']) default_options =
     Inr \<lparr>returned = ErrorMessage errorCodes_iAmNotAdmin, trace = []\<rparr>"
proof -
  have h: "\<not> iAmAdmin platform_not_admin"
    by (simp add: platform_not_admin_def)
  show ?thesis
    using h removeParticipants_not_admin [OF h] by simp
qed

subsection \<open>The pacing scheduler\<close>

text \<open>
  Claim C2, at a range with equal bounds. \<^verbatim>\<open>_getSleepTime\<close> answers a two-element array
  whose elements are equal through the branch shared with plain numbers,
  \<^verbatim>\<open>return sleep\<close>: the value returned is the array itself, not the number in it.
\<close>

theorem getSleepTime_equal_bounds:
  "getSleepTime r (SleepArray [v, v]) = (TimeArray [v, v], SleepArray [v, v])"
  by (simp add: getSleepTime_def)

lemma getSleepTime_number:
  "getSleepTime r (SleepNumber n) = (TimeNumber n, SleepNumber n)"
  by (simp add: getSleepTime_def)

lemma floor_random_range:
  fixes r :: real and n :: int
  assumes "0 \<le> r" and "r < 1" and "0 < n"
  shows "0 \<le> \<lfloor>r * of_int n\<rfloor> \<and> \<lfloor>r * of_int n\<rfloor> < n"
proof
  have "0 \<le> r * of_int n"
    using assms by simp
  then show "0 \<le> \<lfloor>r * of_int n\<rfloor>"
    by simp
  have "r * of_int n < 1 * of_int n"
    using assms by (intro mult_strict_right_mono) simp_all
  then show "\<lfloor>r * of_int n\<rfloor> < n"
    by (simp add: floor_less_iff)
qed

lemma getSleepTime_wide:
  assumes "100 \<le> hi - lo" and "0 \<le> r" and "r < 1"
  shows "\<exists>t. getSleepTime r (SleepArray [lo, hi]) = (TimeNumber t, SleepArray [lo, hi])
             \<and> lo \<le> t \<and> t \<le> hi"
proof -
  have "0 \<le> \<lfloor>r * of_int (hi - lo + 1)\<rfloor> \<and> \<lfloor>r * of_int (hi - lo + 1)\<rfloor> < hi - lo + 1"
    using assms by (intro floor_random_range) simp_all
  with assms(1) show ?thesis
    by (simp add: getSleepTime_def Let_def)
qed

lemma getSleepTime_narrow:
  assumes "hi - lo < 100" and "lo \<noteq> hi" and "hi \<noteq> 0" and "0 \<le> r" and "r < 1"
  shows "\<exists>t. getSleepTime r (SleepArray [lo, hi]) = (TimeNumber t, SleepArray [hi, hi + 100])
             \<and> hi \<le> t \<and> t \<le> hi + 100"
proof -
  have "0 \<le> \<lfloor>r * of_int (101::int)\<rfloor> \<and> \<lfloor>r * of_int (101::int)\<rfloor> < 101"
    using assms by (intro floor_random_range) simp_all
  with assms(1,2,3) show ?thesis
    by (simp add: getSleepTime_def Let_def)
qed

lemma getSleepTime_narrow_zero:
  assumes "- lo < 100" and "lo \<noteq> 0" and "0 \<le> r" and "r < 1"
  shows "getSleepTime r (SleepArray [lo, 0]) = (TimeNumber 0, SleepArray [0, 0])"
proof -
  have "\<lfloor>r\<rfloor> = 0"
    using assms(3,4) by (simp add: floor_eq_iff)
  with assms(1,2) show ?thesis
    by (simp add: getSleepTime_def Let_def)
qed

subsection \<open>When the pacing delay runs\<close>

lemma indexOf_from_not_found: "indexOf_from xs w k = - 1"
  by (induction xs arbitrary: k) (simp_all add: strict_equals_string_wid_def)

lemma indexOf_not_found: "indexOf xs w = - 1"
  by (simp add: indexOf_def indexOf_from_not_found)

lemma pace_unfold:
  "pace E ids i w st =
     (if sleep_truthy (sleep st) \<and> 1 < length ids
      then log_event (SetTimeout (fst (getSleepTime (Math_random E i) (sleep st))))
             (st\<lparr>sleep := snd (getSleepTime (Math_random E i) (sleep st))\<rparr>)
      else st)"
  by (auto simp add: pace_def indexOf_not_found split: prod.splits)

text \<open>
  Claim C3, at a batch of two targets that both reach the removal RPC, with the default
  pacing. The test \<^verbatim>\<open>participantIds.indexOf(pWid) !== participantIds.length - 1\<close> looks the
  \<^verbatim>\<open>Wid\<close> object up in the array of id strings, finds nothing, and so holds for the last
  target too: the timer is set after each of the two removal attempts, the last included.
\<close>

theorem pacing_runs_after_last_target:
  "result_trace (removeParticipants platform_removing (IdArray [''a@c.us'', ''b@c.us'']) default_options) =
     [QueryAndUpdateParticipants,
      QueryExistCall 0 (plain_wid ''a@c.us''), RemoveParticipantsRPC 0 (plain_wid ''a@c.us''),
      SetTimeout (TimeNumber 250),
      QueryExistCall 1 (plain_wid ''b@c.us''), RemoveParticipantsRPC 1 (plain_wid ''b@c.us''),
      SetTimeout (TimeNumber 250)]"
  by (simp add: result_trace_def removeParticipants_def normalize_ids_def initial_state_def
      default_options_def process_participant_def platform_removing_def members_a_b_def
      plain_wid_def log_event_def pace_unfold record_rpcResult_def response_success_def
      getSleepTime_def set_outcome_def Let_def)

subsection \<open>Which targets get an entry\<close>

text \<open>
  Claim C1, at a response whose name is none of the three the classifier knows. The
  chain of \<^verbatim>\<open>if\<close>/\<^verbatim>\<open>else if\<close> on \<^verbatim>\<open>rpcResult.name\<close> has no final \<^verbatim>\<open>else\<close>, so nothing is
  written for the target: the returned map is empty although the batch has one target.
\<close>

theorem unrecognised_response_leaves_no_entry:
  "removeParticipants platform_unrecognised (SingleId ''a@c.us'') default_options =
     Inr \<lparr>returned = BatchResult Map.empty,
          trace = [QueryAndUpdateParticipants,
                   QueryExistCall 0 (plain_wid ''a@c.us''),
                   RemoveParticipantsRPC 0 (plain_wid ''a@c.us'')]\<rparr>"
  by (simp add: removeParticipants_def normalize_ids_def initial_state_def
      default_options_def process_participant_def platform_unrecognised_def
      platform_removing_def members_a_b_def plain_wid_def log_event_def pace_unfold
      record_rpcResult_def response_unrecognised_def Let_def)

subsection \<open>The loop, step by step\<close>

lemma pace_participantData: "participantData (pace E ids i w st) = participantData st"
  by (simp add: pace_unfold log_event_def)

lemma pace_rpc_event:
  "RemoveParticipantsRPC j v \<in> set (events (pace E ids i w st)) \<longleftrightarrow>
   RemoveParticipantsRPC j v \<in> set (events st)"
  by (simp add: pace_unfold log_event_def)

lemma pace_query_event:
  "QueryExistCall j v \<in> set (events (pace E ids i w st)) \<longleftrightarrow>
   QueryExistCall j v \<in> set (events st)"
  by (simp add: pace_unfold log_event_def)

lemma record_rpcResult_events: "events (record_rpcResult k r st) = events st"
  by (simp add: record_rpcResult_def set_outcome_def Let_def)

lemma process_participant_data:
  assumes "process_participant E ids i w st = Inr st'"
  shows "participantData st' =
           (case occurrence_outcome E ids i w of
              None \<Rightarrow> participantData st
            | Some oc \<Rightarrow> (participantData st)(serialized w \<mapsto> oc))"
  using assms
  by (auto simp add: process_participant_def occurrence_outcome_def Let_def pace_participantData
      record_rpcResult_def set_outcome_def log_event_def
      split: if_splits option.splits)

lemma process_participant_rpc_event:
  assumes "process_participant E ids i w st = Inr st'"
  shows "RemoveParticipantsRPC j v \<in> set (events st') \<longleftrightarrow>
           RemoveParticipantsRPC j v \<in> set (events st) \<or> (j = i \<and> v = w \<and> reaches_rpc E i w)"
  using assms
  by (auto simp add: process_participant_def reaches_rpc_def Let_def pace_rpc_event
      record_rpcResult_events set_outcome_def log_event_def
      split: if_splits option.splits)

lemma process_participant_query_event:
  assumes "process_participant E ids i w st = Inr st'"
  shows "QueryExistCall j v \<in> set (events st') \<longleftrightarrow>
           QueryExistCall j v \<in> set (events st) \<or> (j = i \<and> v = w)"
  using assms
  by (auto simp add: process_participant_def Let_def pace_query_event
      record_rpcResult_events set_outcome_def log_event_def
      split: if_splits option.splits)

lemma for_participantWids_frame:
  assumes "for_participantWids E ids i0 ws st = Inr st'"
      and "\<forall>w \<in> set ws. serialized w \<noteq> k"
  shows "participantData st' k = participantData st k"
  using assms
proof (induction ws arbitrary: i0 st)
  case Nil
  then show ?case by simp
next
  case (Cons w rest)
  from Cons.prems(1) obtain st1 where
    step: "process_participant E ids i0 w st = Inr st1" and
    loop: "for_participantWids E ids (Suc i0) rest st1 = Inr st'"
    by (auto split: sum.splits)
  have "participantData st' k = participantData st1 k"
    using Cons.IH [OF loop] Cons.prems(2) by simp
  moreover have "participantData st1 k = participantData st k"
    using process_participant_data [OF step] Cons.prems(2)
    by (simp split: option.splits)
  ultimately show ?case by simp
qed

lemma for_participantWids_last_occurrence:
  assumes "for_participantWids E ids i0 ws st = Inr st'"
      and "n < length ws"
      and "\<forall>m. n < m \<and> m < length ws \<longrightarrow> serialized (ws ! m) \<noteq> serialized (ws ! n)"
      and "occurrence_outcome E ids (i0 + n) (ws ! n) = Some oc"
  shows "participantData st' (serialized (ws ! n)) = Some oc"
  using assms
proof (induction ws arbitrary: i0 st n)
  case Nil
  then show ?case by simp
next
  case (Cons w rest)
  from Cons.prems(1) obtain st1 where
    step: "process_participant E ids i0 w st = Inr st1" and
    loop: "for_participantWids E ids (Suc i0) rest st1 = Inr st'"
    by (auto split: sum.splits)
  show ?case
  proof (cases n)
    case 0
    have later: "\<forall>v \<in> set rest. serialized v \<noteq> serialized w"
    proof
      fix v assume "v \<in> set rest"
      then obtain m where "m < length rest" and "rest ! m = v"
        by (auto simp add: in_set_conv_nth)
      with Cons.prems(3) 0 show "serialized v \<noteq> serialized w"
        by (auto dest: spec [where x = "Suc m"])
    qed
    have "participantData st1 (serialized w) = Some oc"
      using process_participant_data [OF step] Cons.prems(4) 0 by simp
    with for_participantWids_frame [OF loop later] 0 show ?thesis
      by simp
  next
    case (Suc n')
    have "participantData st' (serialized (rest ! n')) = Some oc"
    proof (rule Cons.IH [OF loop])
      show "n' < length rest" using Cons.prems(2) Suc by simp
      show "\<forall>m. n' < m \<and> m < length rest \<longrightarrow> serialized (rest ! m) \<noteq> serialized (rest ! n')"
      proof (intro allI impI)
        fix m assume "n' < m \<and> m < length rest"
        with Cons.prems(3) Suc show "serialized (rest ! m) \<noteq> serialized (rest ! n')"
          by (auto dest: spec [where x = "Suc m"])
      qed
      show "occurrence_outcome E ids (Suc i0 + n') (rest ! n') = Some oc"
        using Cons.prems(4) Suc by simp
    qed
    with Suc show ?thesis by simp
  qed
qed

lemma for_participantWids_rpc_event:
  assumes "for_participantWids E ids i0 ws st = Inr st'"
  shows "RemoveParticipantsRPC j v \<in> set (events st') \<longleftrightarrow>
           RemoveParticipantsRPC j v \<in> set (events st) \<or>
           (i0 \<le> j \<and> j < i0 + length ws \<and> v = ws ! (j - i0) \<and> reaches_rpc E j v)"
  using assms
proof (induction ws arbitrary: i0 st)
  case Nil
  then show ?case by auto
next
  case (Cons w rest)
  from Cons.prems(1) obtain st1 where
    step: "process_participant E ids i0 w st = Inr st1" and
    loop: "for_participantWids E ids (Suc i0) rest st1 = Inr st'"
    by (auto split: sum.splits)
  show ?case
    unfolding Cons.IH [OF loop] process_participant_rpc_event [OF step]
    by (auto simp add: nth_Cons' Suc_diff_le)
qed

lemma for_participantWids_query_event:
  assumes "for_participantWids E ids i0 ws st = Inr st'"
  shows "QueryExistCall j v \<in> set (events st') \<longleftrightarrow>
           QueryExistCall j v \<in> set (events st) \<or>
           (i0 \<le> j \<and> j < i0 + length ws \<and> v = ws ! (j - i0))"
  using assms
proof (induction ws arbitrary: i0 st)
  case Nil
  then show ?case by auto
next
  case (Cons w rest)
  from Cons.prems(1) obtain st1 where
    step: "process_participant E ids i0 w st = Inr st1" and
    loop: "for_participantWids E ids (Suc i0) rest st1 = Inr st'"
    by (auto split: sum.splits)
  show ?case
    unfolding Cons.IH [OF loop] process_participant_query_event [OF step]
    by (auto simp add: nth_Cons' Suc_diff_le)
qed

subsection \<open>Pre-checks and repeated identifiers\<close>

lemma last_occurrence_later:
  assumes "last_occurrence E ids i"
  shows "\<forall>m. i < m \<and> m < length (map (createWid E) ids) \<longrightarrow>
           serialized (map (createWid E) ids ! m) \<noteq> serialized (map (createWid E) ids ! i)"
proof (intro allI impI)
  fix m assume m: "i < m \<and> m < length (map (createWid E) ids)"
  then have "ids ! m \<in> set (drop (Suc i) ids)"
    by (auto simp add: in_set_conv_nth intro!: exI [where x = "m - Suc i"])
  with assms m show "serialized (map (createWid E) ids ! m) \<noteq> serialized (map (createWid E) ids ! i)"
    by (auto simp add: last_occurrence_def list_all_iff)
qed

lemma removeParticipants_batch:
  assumes "removeParticipants E participantIds opts = Inr R"
      and "returned R = BatchResult pd"
  shows "\<exists>st. for_participantWids E (normalize_ids participantIds) 0
                (map (createWid E) (normalize_ids participantIds)) (initial_state opts) = Inr st
              \<and> pd = participantData st \<and> trace R = events st"
  using assms
  by (auto simp add: removeParticipants_def Let_def split: if_splits sum.splits)








text \<open>
  In the result map that a call returns, every position of the batch has been processed:
  its existence query was issued, and a removal RPC of its own whenever both pre-checks
  passed, also for an identifier that occurs again. When the last position with an
  identifier writes an entry, the returned map holds that entry, whatever earlier
  positions wrote.
\<close>

lemma duplicate_last_occurrence_wins:
  assumes run: "removeParticipants E participantIds opts = Inr R"
      and res: "returned R = BatchResult pd"
      and ids: "ids = normalize_ids participantIds"
      and i: "i < length ids"
      and last: "last_occurrence E ids i"
      and oc: "occurrence_outcome E ids i (createWid E (ids ! i)) = Some oc"
  shows "pd (serialized (createWid E (ids ! i))) = Some oc \<and>
         (\<forall>j. j < length ids \<longrightarrow>
            QueryExistCall j (createWid E (ids ! j)) \<in> set (trace R) \<and>
            (reaches_rpc E j (createWid E (ids ! j)) \<longrightarrow>
               RemoveParticipantsRPC j (createWid E (ids ! j)) \<in> set (trace R)))"
proof -
  let ?ws = "map (createWid E) ids"
  from removeParticipants_batch [OF run res] ids obtain st where
    loop: "for_participantWids E ids 0 ?ws (initial_state opts) = Inr st" and
    pd: "pd = participantData st" and tr: "trace R = events st"
    by auto
  have "participantData st (serialized (?ws ! i)) = Some oc"
    using for_participantWids_last_occurrence [OF loop, of i oc]
      last_occurrence_later [OF last] oc i
    by simp
  then have first: "pd (serialized (createWid E (ids ! i))) = Some oc"
    using i by (simp add: pd)
  have rest: "QueryExistCall j (createWid E (ids ! j)) \<in> set (trace R) \<and>
            (reaches_rpc E j (createWid E (ids ! j)) \<longrightarrow>
               RemoveParticipantsRPC j (createWid E (ids ! j)) \<in> set (trace R))"
    if "j < length ids" for j
    using that for_participantWids_query_event [OF loop, of j "createWid E (ids ! j)"]
      for_participantWids_rpc_event [OF loop, of j "createWid E (ids ! j)"]
    by (simp add: tr)
  from first rest show ?thesis
    by blast
qed

text \<open>
  Claim C10, at an identifier that occurs twice, removed at its first position, with a
  response of unrecognised name at its second. Both positions are processed, each with
  a removal RPC of its own, but the second writes no entry, the classifier having no
  final \<^verbatim>\<open>else\<close>: the returned map still holds the first position's code 200, and the
  earlier outcome is not overwritten.
\<close>

theorem unrecognised_last_occurrence_keeps_earlier_entry:
  "result_trace
     (removeParticipants platform_then_unrecognised (IdArray [''a@c.us'', ''a@c.us'']) default_options) =
     [QueryAndUpdateParticipants,
      QueryExistCall 0 (plain_wid ''a@c.us''), RemoveParticipantsRPC 0 (plain_wid ''a@c.us''),
      SetTimeout (TimeNumber 250),
      QueryExistCall 1 (plain_wid ''a@c.us''), RemoveParticipantsRPC 1 (plain_wid ''a@c.us''),
      SetTimeout (TimeNumber 250)] \<and>
   occurrence_outcome platform_then_unrecognised [''a@c.us'', ''a@c.us''] 1 (plain_wid ''a@c.us'') = None \<and>
   result_entry
     (removeParticipants platform_then_unrecognised (IdArray [''a@c.us'', ''a@c.us'']) default_options)
     ''a@c.us'' =
     Some \<lparr>code = 200,
           message = ''The participant was removed successfully from the community and its subgroups''\<rparr>"
  by (simp add: result_entry_def result_trace_def occurrence_outcome_def removeParticipants_def
      normalize_ids_def initial_state_def default_options_def process_participant_def
      platform_then_unrecognised_def platform_removing_def members_a_b_def plain_wid_def
      log_event_def pace_unfold record_rpcResult_def response_success_def
      response_unrecognised_def set_outcome_def getSleepTime_def errorCodes_or_default_def
      errorCodes_def Let_def)

subsection \<open>Entries for recognised responses\<close>

lemma process_participant_total:
  "communityParticipants E = Some ps \<Longrightarrow> \<exists>st'. process_participant E ids i w st = Inr st'"
  by (simp add: process_participant_def Let_def split: option.splits)

lemma occurrence_outcome_recognised:
  assumes "communityParticipants E = Some ps"
      and "\<And>r. sendRemoveParticipantsRPC E i w = Some r \<Longrightarrow>
             name r = ''RemoveParticipantsResponseSuccess'' \<or>
             name r = ''RemoveParticipantsResponseClientError'' \<or>
             name r = ''RemoveParticipantsResponseServerError''"
  shows "\<exists>oc. occurrence_outcome E ids i w = Some oc"
proof (cases "sendRemoveParticipantsRPC E i w")
  case None
  with assms(1) show ?thesis
    by (simp add: occurrence_outcome_def process_participant_def Let_def pace_participantData
        set_outcome_def log_event_def)
next
  case (Some r)
  from assms(2) [OF Some] assms(1) Some show ?thesis
    by (auto simp add: occurrence_outcome_def process_participant_def Let_def pace_participantData
        record_rpcResult_def set_outcome_def log_event_def)
qed

lemma for_participantWids_keys:
  assumes "communityParticipants E = Some ps"
      and "\<forall>i w r. sendRemoveParticipantsRPC E i w = Some r \<longrightarrow>
             name r = ''RemoveParticipantsResponseSuccess'' \<or>
             name r = ''RemoveParticipantsResponseClientError'' \<or>
             name r = ''RemoveParticipantsResponseServerError''"
  shows "\<exists>st'. for_participantWids E ids i0 ws st = Inr st' \<and>
           dom (participantData st') = dom (participantData st) \<union> serialized ` set ws"
proof (induction ws arbitrary: i0 st)
  case Nil
  show ?case by simp
next
  case (Cons w rest)
  from process_participant_total [OF assms(1)] obtain st1 where
    step: "process_participant E ids i0 w st = Inr st1"
    by blast
  from assms(2) have "\<exists>oc. occurrence_outcome E ids i0 w = Some oc"
    by (intro occurrence_outcome_recognised [OF assms(1)]) blast
  then obtain oc where "occurrence_outcome E ids i0 w = Some oc"
    by blast
  with process_participant_data [OF step] have
    d: "dom (participantData st1) = insert (serialized w) (dom (participantData st))"
    by simp
  from Cons.IH [of "Suc i0" st1] obtain st' where
    "for_participantWids E ids (Suc i0) rest st1 = Inr st'" and
    "dom (participantData st') = dom (participantData st1) \<union> serialized ` set rest"
    by blast
  with step d show ?case
    by auto
qed

text \<open>
  When every response of the removal RPC has one of the three names the classifier knows
  (or the call throws), an admin's batch completes and the keys of the returned map are
  exactly the serialized identifiers of the targets.
\<close>

lemma removeParticipants_keys_recognised:
  assumes "iAmAdmin E"
      and "communityParticipants E = Some ps"
      and "\<forall>i w r. sendRemoveParticipantsRPC E i w = Some r \<longrightarrow>
             name r = ''RemoveParticipantsResponseSuccess'' \<or>
             name r = ''RemoveParticipantsResponseClientError'' \<or>
             name r = ''RemoveParticipantsResponseServerError''"
  shows "\<exists>pd tr. removeParticipants E participantIds opts =
                   Inr \<lparr>returned = BatchResult pd, trace = tr\<rparr> \<and>
                 dom pd = serialized ` createWid E ` set (normalize_ids participantIds)"
proof -
  from for_participantWids_keys [OF assms(2) assms(3)] obtain st' where
    "for_participantWids E (normalize_ids participantIds) 0
       (map (createWid E) (normalize_ids participantIds)) (initial_state opts) = Inr st'" and
    "dom (participantData st') =
       dom (participantData (initial_state opts)) \<union>
       serialized ` set (map (createWid E) (normalize_ids participantIds))"
    by blast
  with assms(1) show ?thesis
    by (simp add: removeParticipants_def Let_def initial_state_def)
qed

subsection \<open>Counting the timers\<close>

lemma getSleepTime_truthy: "sleep_truthy (snd (getSleepTime r s)) = sleep_truthy s"
  by (cases s) (simp_all add: getSleepTime_def Let_def)

lemma pace_counts:
  "timers_set (events (pace E ids i w st)) =
     timers_set (events st) + (if sleep_truthy (sleep st) \<and> 1 < length ids then 1 else 0)"
  "removal_attempts (events (pace E ids i w st)) = removal_attempts (events st)"
  "sleep_truthy (sleep (pace E ids i w st)) = sleep_truthy (sleep st)"
  by (simp_all add: pace_unfold log_event_def timers_set_def removal_attempts_def getSleepTime_truthy)

lemma process_participant_shape:
  assumes "process_participant E ids i w st = Inr st'"
  shows "(\<not> reaches_rpc E i w \<and> events st' = events st @ [QueryExistCall i w] \<and> sleep st' = sleep st) \<or>
         (reaches_rpc E i w \<and>
            events st' = events (pace E ids i w
               (st\<lparr>events := events st @ [QueryExistCall i w, RemoveParticipantsRPC i w]\<rparr>)) \<and>
            sleep st' = sleep (pace E ids i w
               (st\<lparr>events := events st @ [QueryExistCall i w, RemoveParticipantsRPC i w]\<rparr>)))"
proof (cases "QueryExist E i w")
  case False
  with assms show ?thesis
    by (auto simp add: process_participant_def reaches_rpc_def Let_def set_outcome_def log_event_def)
next
  case q: True
  show ?thesis
  proof (cases "communityParticipants E")
    case None
    with assms q show ?thesis
      by (simp add: process_participant_def Let_def)
  next
    case (Some ps)
    show ?thesis
    proof (cases "list_all (\<lambda>p. serialized p \<noteq> serialized w) ps")
      case True
      with assms q Some show ?thesis
        by (auto simp add: process_participant_def reaches_rpc_def Let_def set_outcome_def log_event_def)
    next
      case False
      have e: "events (pace E ids i w (set_outcome k c m s)) = events (pace E ids i w s)"
              "sleep (pace E ids i w (set_outcome k c m s)) = sleep (pace E ids i w s)" for k c m s
        by (simp_all add: pace_unfold set_outcome_def log_event_def)
      have r: "events (record_rpcResult k rr s) = events s" "sleep (record_rpcResult k rr s) = sleep s" for k rr s
        by (simp_all add: record_rpcResult_def set_outcome_def Let_def)
      from False q Some have "reaches_rpc E i w"
        by (simp add: reaches_rpc_def)
      moreover from assms q Some False have
        "events st' = events (pace E ids i w
               (st\<lparr>events := events st @ [QueryExistCall i w, RemoveParticipantsRPC i w]\<rparr>)) \<and>
         sleep st' = sleep (pace E ids i w
               (st\<lparr>events := events st @ [QueryExistCall i w, RemoveParticipantsRPC i w]\<rparr>))"
        by (cases "sendRemoveParticipantsRPC E i w")
           (auto simp add: process_participant_def Let_def e r log_event_def)
      ultimately show ?thesis by blast
    qed
  qed
qed

lemma process_participant_counts:
  assumes "process_participant E ids i w st = Inr st'"
  shows "\<exists>k. removal_attempts (events st') = removal_attempts (events st) + k \<and>
             timers_set (events st') = timers_set (events st) +
               (if sleep_truthy (sleep st) \<and> 1 < length ids then k else 0) \<and>
             sleep_truthy (sleep st') = sleep_truthy (sleep st)"
proof -
  from process_participant_shape [OF assms] show ?thesis
  proof
    assume "\<not> reaches_rpc E i w \<and> events st' = events st @ [QueryExistCall i w] \<and> sleep st' = sleep st"
    then have "removal_attempts (events st') = removal_attempts (events st) + 0 \<and>
             timers_set (events st') = timers_set (events st) +
               (if sleep_truthy (sleep st) \<and> 1 < length ids then 0 else 0) \<and>
             sleep_truthy (sleep st') = sleep_truthy (sleep st)"
      by (simp add: timers_set_def removal_attempts_def)
    then show ?thesis by blast
  next
    let ?s = "st\<lparr>events := events st @ [QueryExistCall i w, RemoveParticipantsRPC i w]\<rparr>"
    assume "reaches_rpc E i w \<and> events st' = events (pace E ids i w ?s) \<and>
            sleep st' = sleep (pace E ids i w ?s)"
    then have "removal_attempts (events st') = removal_attempts (events ?s)"
      and "timers_set (events st') = timers_set (events ?s) +
               (if sleep_truthy (sleep ?s) \<and> 1 < length ids then 1 else 0)"
      and "sleep_truthy (sleep st') = sleep_truthy (sleep ?s)"
      by (simp_all add: pace_counts)
    then have "removal_attempts (events st') = removal_attempts (events st) + 1 \<and>
             timers_set (events st') = timers_set (events st) +
               (if sleep_truthy (sleep st) \<and> 1 < length ids then 1 else 0) \<and>
             sleep_truthy (sleep st') = sleep_truthy (sleep st)"
      by (simp add: timers_set_def removal_attempts_def)
    then show ?thesis by blast
  qed
qed

lemma for_participantWids_counts:
  assumes "for_participantWids E ids i0 ws st = Inr st'"
  shows "\<exists>k. removal_attempts (events st') = removal_attempts (events st) + k \<and>
             timers_set (events st') = timers_set (events st) +
               (if sleep_truthy (sleep st) \<and> 1 < length ids then k else 0)"
  using assms
proof (induction ws arbitrary: i0 st)
  case Nil
  then show ?case by simp
next
  case (Cons w rest)
  from Cons.prems obtain st1 where
    step: "process_participant E ids i0 w st = Inr st1" and
    loop: "for_participantWids E ids (Suc i0) rest st1 = Inr st'"
    by (auto split: sum.splits)
  from process_participant_counts [OF step] obtain k1 where
    k1: "removal_attempts (events st1) = removal_attempts (events st) + k1"
        "timers_set (events st1) = timers_set (events st) +
               (if sleep_truthy (sleep st) \<and> 1 < length ids then k1 else 0)"
        "sleep_truthy (sleep st1) = sleep_truthy (sleep st)"
    by blast
  from Cons.IH [OF loop] obtain k2 where
    k2: "removal_attempts (events st') = removal_attempts (events st1) + k2"
        "timers_set (events st') = timers_set (events st1) +
               (if sleep_truthy (sleep st1) \<and> 1 < length ids then k2 else 0)"
    by blast
  from k1 k2 have "removal_attempts (events st') = removal_attempts (events st) + (k1 + k2) \<and>
             timers_set (events st') = timers_set (events st) +
               (if sleep_truthy (sleep st) \<and> 1 < length ids then k1 + k2 else 0)"
    by simp
  then show ?case by blast
qed

text \<open>
  The number of timers set in a batch: one per removal attempt when \<^verbatim>\<open>sleep\<close> is truthy
  and the batch has more than one target, none otherwise.
\<close>

lemma pacing_once_per_removal_attempt:
  assumes "removeParticipants E participantIds opts = Inr R"
  shows "timers_set (trace R) =
           (if sleep_truthy (sleep (initial_state opts)) \<and> 1 < length (normalize_ids participantIds)
            then removal_attempts (trace R) else 0)"
proof (cases "iAmAdmin E")
  case False
  with assms show ?thesis
    by (auto simp add: removeParticipants_def Let_def timers_set_def removal_attempts_def)
next
  case True
  with assms obtain st where
    loop: "for_participantWids E (normalize_ids participantIds) 0
            (map (createWid E) (normalize_ids participantIds)) (initial_state opts) = Inr st" and
    tr: "trace R = events st"
    by (auto simp add: removeParticipants_def Let_def split: sum.splits)
  from for_participantWids_counts [OF loop] show ?thesis
    by (auto simp add: tr initial_state_def timers_set_def removal_attempts_def)
qed

lemma single_target_never_paced:
  assumes "removeParticipants E participantIds opts = Inr R"
      and "length (normalize_ids participantIds) \<le> 1"
  shows "timers_set (trace R) = 0"
  using pacing_once_per_removal_attempt [OF assms(1)] assms(2) by simp

section \<open>Properties of entity hydration\<close>

lemma Message_patch_completes:
  assumes "serialized_if_object (js_prop data ''from'') = Inr vf"
      and "serialized_if_object (js_prop data ''to'') = Inr vt"
      and "serialized_if_object (js_prop data ''author'') = Inr va"
      and "get_prop (js_prop data ''id'') ''fromMe'' = Inr vm"
  shows "Message_patch Q m data =
     Q (m\<lparr>msg_id := js_prop data ''id'',
          hasMedia := JBool (truthy (js_prop data ''clientUrl'')),
          body := (if truthy (js_prop data ''clientUrl'') then js_or (js_prop data ''caption'') (JStr [])
                   else js_or (js_prop data ''body'') (JStr [])),
          msg_type := js_prop data ''type'',
          timestamp := js_prop data ''t'',
          msg_from := vf, msg_to := vt, author := va,
          isForwarded := js_prop data ''isForwarded'',
          broadcast := js_prop data ''broadcast'',
          fromMe := vm,
          hasQuotedMsg := JBool (truthy (js_prop data ''quotedMsg'')),
          mentions := (if truthy (js_prop data ''mentionedJidList'') then js_prop data ''mentionedJidList''
                       else JArr [])\<rparr>) data"
proof -
  have "\<not> nullish (js_prop data ''id'')"
    using assms(4) by (simp add: get_prop_def split: if_splits)
  then have "\<not> nullish data"
    by (cases data) simp_all
  with assms show ?thesis
    by (simp add: Message_patch_def Let_def)
qed

text \<open>
  Claim C5, amended. A derived patch assigns its own fields first and calls the parent's
  patch last, with the same snapshot and on the entity so updated, returning what the
  parent returns: \<^verbatim>\<open>Community._patch\<close> has set \<^verbatim>\<open>groupMetadata\<close> and \<^verbatim>\<open>isCommunity\<close> when the
  \<^verbatim>\<open>GroupChat\<close>-level patch starts, and \<^verbatim>\<open>Message._patch\<close> has set its thirteen fields when the
  \<^verbatim>\<open>Base\<close>-level patch starts (on a snapshot on which none of its reads throws).
\<close>

theorem patch_assigns_then_calls_parent:
  "(\<not> nullish cdata \<longrightarrow>
      Community_patch P c cdata =
        P (c\<lparr>groupMetadata := js_prop cdata ''groupMetadata'', isCommunity := JBool True\<rparr>) cdata) \<and>
   (serialized_if_object (js_prop data ''from'') = Inr vf \<and>
    serialized_if_object (js_prop data ''to'') = Inr vt \<and>
    serialized_if_object (js_prop data ''author'') = Inr va \<and>
    get_prop (js_prop data ''id'') ''fromMe'' = Inr vm \<longrightarrow>
      Message_patch Q m data =
        Q (m\<lparr>msg_id := js_prop data ''id'',
             hasMedia := JBool (truthy (js_prop data ''clientUrl'')),
             body := (if truthy (js_prop data ''clientUrl'') then js_or (js_prop data ''caption'') (JStr [])
                      else js_or (js_prop data ''body'') (JStr [])),
             msg_type := js_prop data ''type'',
             timestamp := js_prop data ''t'',
             msg_from := vf, msg_to := vt, author := va,
             isForwarded := js_prop data ''isForwarded'',
             broadcast := js_prop data ''broadcast'',
             fromMe := vm,
             hasQuotedMsg := JBool (truthy (js_prop data ''quotedMsg'')),
             mentions := (if truthy (js_prop data ''mentionedJidList'') then js_prop data ''mentionedJidList''
                          else JArr [])\<rparr>) data)"
proof (intro conjI impI)
  assume "\<not> nullish cdata"
  then show "Community_patch P c cdata =
        P (c\<lparr>groupMetadata := js_prop cdata ''groupMetadata'', isCommunity := JBool True\<rparr>) cdata"
    by (simp add: Community_patch_def Let_def)
next
  assume "serialized_if_object (js_prop data ''from'') = Inr vf \<and>
    serialized_if_object (js_prop data ''to'') = Inr vt \<and>
    serialized_if_object (js_prop data ''author'') = Inr va \<and>
    get_prop (js_prop data ''id'') ''fromMe'' = Inr vm"
  then show "Message_patch Q m data =
        Q (m\<lparr>msg_id := js_prop data ''id'',
             hasMedia := JBool (truthy (js_prop data ''clientUrl'')),
             body := (if truthy (js_prop data ''clientUrl'') then js_or (js_prop data ''caption'') (JStr [])
                      else js_or (js_prop data ''body'') (JStr [])),
             msg_type := js_prop data ''type'',
             timestamp := js_prop data ''t'',
             msg_from := vf, msg_to := vt, author := va,
             isForwarded := js_prop data ''isForwarded'',
             broadcast := js_prop data ''broadcast'',
             fromMe := vm,
             hasQuotedMsg := JBool (truthy (js_prop data ''quotedMsg'')),
             mentions := (if truthy (js_prop data ''mentionedJidList'') then js_prop data ''mentionedJidList''
                          else JArr [])\<rparr>) data"
    by (intro Message_patch_completes) simp_all
qed

theorem patch_assigns_then_calls_parent_witness:
  "\<not> nullish (JObj [(''groupMetadata'', JObj [])]) \<and>
   Community_patch flag_reading_parent unpatched_community (JObj [(''groupMetadata'', JObj [])]) =
     (Inr (JBool True), \<lparr>groupMetadata = JObj [], isCommunity = JBool True\<rparr>) \<and>
   serialized_if_object (js_prop snapshot_quoted ''from'') = Inr (JStr ''b@c.us'') \<and>
   serialized_if_object (js_prop snapshot_quoted ''to'') = Inr (JStr ''a@c.us'') \<and>
   serialized_if_object (js_prop snapshot_quoted ''author'') = Inr JUndefined \<and>
   get_prop (js_prop snapshot_quoted ''id'') ''fromMe'' = Inr (JBool True) \<and>
   Message_patch unchanged_parent chat_message snapshot_quoted =
     (Inr snapshot_quoted,
      \<lparr>client = 1,
       msg_id = JObj [(''fromMe'', JBool True), (''_serialized'', JStr ''m0'')],
       hasMedia = JBool False, body = JStr ''original'', msg_type = JStr ''chat'',
       timestamp = JUndefined, msg_from = JStr ''b@c.us'', msg_to = JStr ''a@c.us'',
       author = JUndefined, isForwarded = JUndefined, broadcast = JUndefined,
       fromMe = JBool True, hasQuotedMsg = JBool False, mentions = JArr []\<rparr>)"
proof -
  have h0: "\<not> nullish (JObj [(''groupMetadata'', JObj [])])"
    by simp
  have h1: "serialized_if_object (js_prop snapshot_quoted ''from'') = Inr (JStr ''b@c.us'')"
    by (simp add: snapshot_quoted_def serialized_if_object_def get_prop_def)
  have h2: "serialized_if_object (js_prop snapshot_quoted ''to'') = Inr (JStr ''a@c.us'')"
    by (simp add: snapshot_quoted_def serialized_if_object_def get_prop_def)
  have h3: "serialized_if_object (js_prop snapshot_quoted ''author'') = Inr JUndefined"
    by (simp add: snapshot_quoted_def serialized_if_object_def get_prop_def)
  have h4: "get_prop (js_prop snapshot_quoted ''id'') ''fromMe'' = Inr (JBool True)"
    by (simp add: snapshot_quoted_def get_prop_def)
  have a: "Community_patch flag_reading_parent unpatched_community (JObj [(''groupMetadata'', JObj [])]) =
     (Inr (JBool True), \<lparr>groupMetadata = JObj [], isCommunity = JBool True\<rparr>)"
    using patch_assigns_then_calls_parent
      [of "JObj [(''groupMetadata'', JObj [])]" flag_reading_parent unpatched_community
          snapshot_quoted "JStr ''b@c.us''" "JStr ''a@c.us''" JUndefined "JBool True"
          unchanged_parent chat_message] h0
    by (simp add: flag_reading_parent_def unpatched_community_def)
  have b: "Message_patch unchanged_parent chat_message snapshot_quoted =
     (Inr snapshot_quoted,
      \<lparr>client = 1,
       msg_id = JObj [(''fromMe'', JBool True), (''_serialized'', JStr ''m0'')],
       hasMedia = JBool False, body = JStr ''original'', msg_type = JStr ''chat'',
       timestamp = JUndefined, msg_from = JStr ''b@c.us'', msg_to = JStr ''a@c.us'',
       author = JUndefined, isForwarded = JUndefined, broadcast = JUndefined,
       fromMe = JBool True, hasQuotedMsg = JBool False, mentions = JArr []\<rparr>)"
    using patch_assigns_then_calls_parent
      [of "JObj [(''groupMetadata'', JObj [])]" flag_reading_parent unpatched_community
          snapshot_quoted "JStr ''b@c.us''" "JStr ''a@c.us''" JUndefined "JBool True"
          unchanged_parent chat_message] h1 h2 h3 h4
    by (simp add: unchanged_parent_def chat_message_def empty_message_def
        snapshot_quoted_def js_or_def)
  from h0 h1 h2 h3 h4 a b show ?thesis
    by simp
qed

text \<open>
  Claim C5 as stated fails: patching an entity on which \<^verbatim>\<open>isCommunity\<close> is unset, the parent's
  patch already finds the flag \<^verbatim>\<open>true\<close>; had the parent run first, it would have found it
  undefined.
\<close>

theorem parent_sees_community_fields_set:
  "fst (Community_patch flag_reading_parent unpatched_community (JObj [])) = Inr (JBool True) \<and>
   fst (Community_patch_parent_first flag_reading_parent unpatched_community (JObj [])) = Inr JUndefined"
  by (simp add: Community_patch_def Community_patch_parent_first_def flag_reading_parent_def
      unpatched_community_def Let_def)

text \<open>
  Claim C6, amended. Patching again overwrites every field the patch assigns, present in
  the new snapshot or not: on a snapshot on which none of the reads throws, the call
  gives what it gives on an entity on which those fields were never set, so no previous
  value is kept. The same holds for the two fields of \<^verbatim>\<open>Community._patch\<close>.
\<close>

theorem repatch_forgets_previous_values:
  assumes "serialized_if_object (js_prop data ''from'') = Inr vf"
      and "serialized_if_object (js_prop data ''to'') = Inr vt"
      and "serialized_if_object (js_prop data ''author'') = Inr va"
      and "get_prop (js_prop data ''id'') ''fromMe'' = Inr vm"
      and "\<not> nullish cdata"
  shows "Message_patch Q m data = Message_patch Q (unset_fields m) data \<and>
         Community_patch P c cdata =
           Community_patch P (c\<lparr>groupMetadata := JUndefined, isCommunity := JUndefined\<rparr>) cdata"
proof
  show "Message_patch Q m data = Message_patch Q (unset_fields m) data"
    unfolding Message_patch_completes [OF assms(1-4)]
    by (simp add: unset_fields_def)
  show "Community_patch P c cdata =
           Community_patch P (c\<lparr>groupMetadata := JUndefined, isCommunity := JUndefined\<rparr>) cdata"
    using assms(5) by (simp add: Community_patch_def Let_def)
qed

theorem repatch_forgets_previous_values_witness:
  "serialized_if_object (js_prop snapshot_without_type ''from'') = Inr JUndefined \<and>
   serialized_if_object (js_prop snapshot_without_type ''to'') = Inr JUndefined \<and>
   serialized_if_object (js_prop snapshot_without_type ''author'') = Inr JUndefined \<and>
   get_prop (js_prop snapshot_without_type ''id'') ''fromMe'' = Inr (JBool False) \<and>
   \<not> nullish (JObj []) \<and>
   Message_patch unchanged_parent chat_message snapshot_without_type =
     Message_patch unchanged_parent (unset_fields chat_message) snapshot_without_type \<and>
   msg_type (snd (Message_patch unchanged_parent (unset_fields chat_message) snapshot_without_type)) = JUndefined \<and>
   Community_patch flag_reading_parent \<lparr>groupMetadata = JObj [], isCommunity = JBool True\<rparr> (JObj []) =
     Community_patch flag_reading_parent
       (\<lparr>groupMetadata = JObj [], isCommunity = JBool True\<rparr>\<lparr>groupMetadata := JUndefined, isCommunity := JUndefined\<rparr>) (JObj [])"
proof -
  have h1: "serialized_if_object (js_prop snapshot_without_type ''from'') = Inr JUndefined"
    by (simp add: snapshot_without_type_def serialized_if_object_def)
  have h2: "serialized_if_object (js_prop snapshot_without_type ''to'') = Inr JUndefined"
    by (simp add: snapshot_without_type_def serialized_if_object_def)
  have h3: "serialized_if_object (js_prop snapshot_without_type ''author'') = Inr JUndefined"
    by (simp add: snapshot_without_type_def serialized_if_object_def)
  have h4: "get_prop (js_prop snapshot_without_type ''id'') ''fromMe'' = Inr (JBool False)"
    by (simp add: snapshot_without_type_def get_prop_def)
  have h5: "\<not> nullish (JObj [])"
    by simp
  have t: "msg_type (snd (Message_patch unchanged_parent (unset_fields chat_message) snapshot_without_type)) = JUndefined"
    by (subst Message_patch_completes [OF h1 h2 h3 h4])
       (simp add: unchanged_parent_def snapshot_without_type_def)
  from repatch_forgets_previous_values
         [OF h1 h2 h3 h4 h5, of unchanged_parent chat_message flag_reading_parent
            "\<lparr>groupMetadata = JObj [], isCommunity = JBool True\<rparr>"]
       h1 h2 h3 h4 h5 t
  show ?thesis
    by simp
qed

text \<open>
  Claim C6 as stated fails: a message of type \<open>chat\<close>, patched again with a snapshot that has
  no \<^verbatim>\<open>type\<close>, ends with \<^verbatim>\<open>type\<close> undefined.
\<close>

theorem repatch_clears_absent_type:
  "js_prop snapshot_without_type ''type'' = JUndefined \<and>
   msg_type chat_message = JStr ''chat'' \<and>
   fst (Message_patch unchanged_parent chat_message snapshot_without_type) = Inr snapshot_without_type \<and>
   msg_type (snd (Message_patch unchanged_parent chat_message snapshot_without_type)) = JUndefined"
  by (simp add: Message_patch_def Let_def unchanged_parent_def chat_message_def empty_message_def
      snapshot_without_type_def serialized_if_object_def get_prop_def js_or_def)

text \<open>
  Claim C7, amended. On a snapshot without \<^verbatim>\<open>id\<close>, \<^verbatim>\<open>Message._patch\<close> fails with a
  \<^verbatim>\<open>TypeError\<close>, raised at the latest by the read \<^verbatim>\<open>data.id.fromMe\<close>, and never calls the
  parent's patch. By then \<^verbatim>\<open>id\<close>, \<^verbatim>\<open>hasMedia\<close>, \<^verbatim>\<open>body\<close>, \<^verbatim>\<open>type\<close> and \<^verbatim>\<open>timestamp\<close> have been
  overwritten from the snapshot; \<^verbatim>\<open>fromMe\<close>, \<^verbatim>\<open>hasQuotedMsg\<close> and \<^verbatim>\<open>mentions\<close> keep their values.
\<close>

theorem patch_without_id_fails_midway:
  assumes "\<not> nullish data" and "nullish (js_prop data ''id'')"
  shows "fst (Message_patch Q m data) = Inl TypeError \<and>
         Message_patch Q m data = Message_patch Q' m data \<and>
         msg_id (snd (Message_patch Q m data)) = js_prop data ''id'' \<and>
         hasMedia (snd (Message_patch Q m data)) = JBool (truthy (js_prop data ''clientUrl'')) \<and>
         body (snd (Message_patch Q m data)) =
           (if truthy (js_prop data ''clientUrl'') then js_or (js_prop data ''caption'') (JStr [])
            else js_or (js_prop data ''body'') (JStr [])) \<and>
         msg_type (snd (Message_patch Q m data)) = js_prop data ''type'' \<and>
         timestamp (snd (Message_patch Q m data)) = js_prop data ''t'' \<and>
         fromMe (snd (Message_patch Q m data)) = fromMe m \<and>
         hasQuotedMsg (snd (Message_patch Q m data)) = hasQuotedMsg m \<and>
         mentions (snd (Message_patch Q m data)) = mentions m"
proof -
  have e: "get_prop (js_prop data ''id'') ''fromMe'' = Inl TypeError"
    using assms(2) by (simp add: get_prop_def)
  have s: "serialized_if_object x = Inl TypeError \<or> (\<exists>v. serialized_if_object x = Inr v)" for x
    by (simp add: serialized_if_object_def get_prop_def)
  from s [of "js_prop data ''from''"] s [of "js_prop data ''to''"] s [of "js_prop data ''author''"]
  show ?thesis
    using assms(1) e by (auto simp add: Message_patch_def Let_def)
qed

theorem patch_without_id_fails_midway_witness:
  "\<not> nullish snapshot_without_id \<and> nullish (js_prop snapshot_without_id ''id'') \<and>
   fst (Message_patch unchanged_parent chat_message snapshot_without_id) = Inl TypeError \<and>
   msg_type (snd (Message_patch unchanged_parent chat_message snapshot_without_id)) = JStr ''image'' \<and>
   body (snd (Message_patch unchanged_parent chat_message snapshot_without_id)) = JStr ''hi'' \<and>
   hasQuotedMsg (snd (Message_patch unchanged_parent chat_message snapshot_without_id)) = JBool True"
proof -
  have h1: "\<not> nullish snapshot_without_id"
    by (simp add: snapshot_without_id_def)
  have h2: "nullish (js_prop snapshot_without_id ''id'')"
    by (simp add: snapshot_without_id_def)
  from patch_without_id_fails_midway [OF h1 h2, of unchanged_parent chat_message unchanged_parent] h1 h2
  show ?thesis
    by (simp add: snapshot_without_id_def chat_message_def empty_message_def js_or_def)
qed

text \<open>
  Claim C7 as stated fails: after the failed patch the entity is not what it was; its
  type has changed from \<open>chat\<close> to \<open>image\<close>.
\<close>

theorem patch_without_id_modifies_entity:
  "js_prop snapshot_without_id ''id'' = JUndefined \<and>
   fst (Message_patch unchanged_parent chat_message snapshot_without_id) = Inl TypeError \<and>
   snd (Message_patch unchanged_parent chat_message snapshot_without_id) \<noteq> chat_message \<and>
   msg_type chat_message = JStr ''chat'' \<and>
   msg_type (snd (Message_patch unchanged_parent chat_message snapshot_without_id)) = JStr ''image''"
  by (simp add: Message_patch_def Let_def unchanged_parent_def chat_message_def empty_message_def
      snapshot_without_id_def serialized_if_object_def get_prop_def js_or_def)

text \<open>
  Claim C9. On a message whose \<^verbatim>\<open>hasQuotedMsg\<close> is falsy, \<^verbatim>\<open>getQuotedMessage\<close> returns
  \<^verbatim>\<open>undefined\<close> and makes no bridge call. On a message whose flag is set, when the bridge
  resolves to a snapshot and hydrating it completes, there is exactly one bridge call,
  with the message's serialized id, and the result is a reference that no entity had
  before the call, to a message built by patching an empty entity with that snapshot;
  the entities that existed are unchanged.
\<close>

theorem getQuotedMessage_lazy_and_fresh:
  "(\<not> truthy (hasQuotedMsg this) \<longrightarrow>
      getQuotedMessage Q evaluate h this =
        \<lparr>outcome_ref = Inr None, entities = h, bridge_calls = []\<rparr>) \<and>
   (truthy (hasQuotedMsg this) \<and>
    get_prop (msg_id this) ''_serialized'' = Inr msgId \<and>
    evaluate msgId = Resolves quotedMsg \<and> truthy quotedMsg \<and>
    Message_patch Q (empty_message (client this)) quotedMsg = (Inr r, m) \<longrightarrow>
      getQuotedMessage Q evaluate h this =
        \<lparr>outcome_ref = Inr (Some (length h)), entities = h @ [m], bridge_calls = [msgId]\<rparr>)"
  by (simp add: getQuotedMessage_def Message_new_def)

theorem getQuotedMessage_lazy_and_fresh_witness:
  "\<not> truthy (hasQuotedMsg plain_message) \<and>
   getQuotedMessage unchanged_parent bridge_quoted [plain_message] plain_message =
     \<lparr>outcome_ref = Inr None, entities = [plain_message], bridge_calls = []\<rparr> \<and>
   truthy (hasQuotedMsg chat_message) \<and>
   get_prop (msg_id chat_message) ''_serialized'' = Inr (JStr ''m1'') \<and>
   bridge_quoted (JStr ''m1'') = Resolves snapshot_quoted \<and> truthy snapshot_quoted \<and>
   getQuotedMessage unchanged_parent bridge_quoted [chat_message] chat_message =
     \<lparr>outcome_ref = Inr (Some 1),
      entities = [chat_message,
        \<lparr>client = 1,
         msg_id = JObj [(''fromMe'', JBool True), (''_serialized'', JStr ''m0'')],
         hasMedia = JBool False, body = JStr ''original'', msg_type = JStr ''chat'',
         timestamp = JUndefined, msg_from = JStr ''b@c.us'', msg_to = JStr ''a@c.us'',
         author = JUndefined, isForwarded = JUndefined, broadcast = JUndefined,
         fromMe = JBool True, hasQuotedMsg = JBool False, mentions = JArr []\<rparr>],
      bridge_calls = [JStr ''m1'']\<rparr>"
proof -
  let ?m = "\<lparr>client = 1,
         msg_id = JObj [(''fromMe'', JBool True), (''_serialized'', JStr ''m0'')],
         hasMedia = JBool False, body = JStr ''original'', msg_type = JStr ''chat'',
         timestamp = JUndefined, msg_from = JStr ''b@c.us'', msg_to = JStr ''a@c.us'',
         author = JUndefined, isForwarded = JUndefined, broadcast = JUndefined,
         fromMe = JBool True, hasQuotedMsg = JBool False, mentions = JArr []\<rparr>"
  have a1: "\<not> truthy (hasQuotedMsg plain_message)"
    by (simp add: plain_message_def)
  have b1: "truthy (hasQuotedMsg chat_message)"
    by (simp add: chat_message_def)
  have b2: "get_prop (msg_id chat_message) ''_serialized'' = Inr (JStr ''m1'')"
    by (simp add: chat_message_def get_prop_def)
  have b3: "bridge_quoted (JStr ''m1'') = Resolves snapshot_quoted"
    by (simp add: bridge_quoted_def)
  have b4: "truthy snapshot_quoted"
    by (simp add: snapshot_quoted_def)
  have b5: "Message_patch unchanged_parent (empty_message (client chat_message)) snapshot_quoted =
              (Inr snapshot_quoted, ?m)"
    by (simp add: Message_patch_def Let_def unchanged_parent_def chat_message_def empty_message_def
        snapshot_quoted_def serialized_if_object_def get_prop_def js_or_def)
  have a: "getQuotedMessage unchanged_parent bridge_quoted [plain_message] plain_message =
     \<lparr>outcome_ref = Inr None, entities = [plain_message], bridge_calls = []\<rparr>"
    using getQuotedMessage_lazy_and_fresh
      [of plain_message unchanged_parent bridge_quoted "[plain_message]"] a1
    by simp
  have b: "getQuotedMessage unchanged_parent bridge_quoted [chat_message] chat_message =
     \<lparr>outcome_ref = Inr (Some 1), entities = [chat_message, ?m], bridge_calls = [JStr ''m1'']\<rparr>"
    using getQuotedMessage_lazy_and_fresh
      [of chat_message unchanged_parent bridge_quoted "[chat_message]"
          "JStr ''m1''" snapshot_quoted snapshot_quoted ?m] b1 b2 b3 b4 b5
    by simp
  from a1 a b1 b2 b3 b4 b show ?thesis
    by simp
qed

end
